theory Spec2Isabelle
  imports Complex_Main
begin

section \<open>Python values used by the script\<close>

text \<open>
  A Python \<open>str\<close> is a sequence of Unicode code points, so it is modelled as a list of
  code points (\<open>nat\<close>), not as a list of bytes: \<open>str.strip\<close>, \<open>str.startswith\<close>,
  \<open>str.replace\<close> and \<open>in\<close> all work on code points. \<open>lit\<close> turns an ASCII literal
  into such a string; the non-ASCII symbols of the source are written as code points.
\<close>

type_synonym pystr = "nat list"

definition lit :: "string \<Rightarrow> pystr" where
  "lit s = map of_char s"

text \<open>The values the script handles: what \<open>json.loads\<close> can return, and \<open>str\<close>.\<close>

datatype pyval =
    PyNone
  | PyBool bool
  | PyInt int
  | PyFloat real
  | PyStr pystr
  | PyList "pyval list"
  | PyDict "(pystr \<times> pyval) list"

text \<open>
  Exceptions: the classes of \<open>requests.exceptions\<close> and the builtins that the function
  can meet. \<open>ReqConnectTimeout\<close> is a subclass of both \<open>ConnectionError\<close> and
  \<open>Timeout\<close>; \<open>ReqJSONDecodeError\<close> (requests 2.27 and later) is a subclass of both
  \<open>RequestException\<close> and \<open>json.JSONDecodeError\<close>; \<open>ReqOther\<close> stands for the
  remaining subclasses of \<open>RequestException\<close>. An exception value carries its class
  and \<open>str(e)\<close>.
\<close>

datatype exn_class =
    ReqTimeout
  | ReqReadTimeout
  | ReqConnectTimeout
  | ReqConnectionError
  | ReqHTTPError
  | ReqJSONDecodeError
  | ReqOther
  | JSONDecodeError
  | KeyError
  | IndexError
  | TypeError
  | AttributeError
  | OtherError

datatype exn = Exn exn_class pystr

fun is_Timeout :: "exn_class \<Rightarrow> bool" where
  "is_Timeout ReqTimeout = True"
| "is_Timeout ReqReadTimeout = True"
| "is_Timeout ReqConnectTimeout = True"
| "is_Timeout _ = False"

fun is_ConnectionError :: "exn_class \<Rightarrow> bool" where
  "is_ConnectionError ReqConnectionError = True"
| "is_ConnectionError ReqConnectTimeout = True"
| "is_ConnectionError _ = False"

fun is_RequestException :: "exn_class \<Rightarrow> bool" where
  "is_RequestException ReqTimeout = True"
| "is_RequestException ReqReadTimeout = True"
| "is_RequestException ReqConnectTimeout = True"
| "is_RequestException ReqConnectionError = True"
| "is_RequestException ReqHTTPError = True"
| "is_RequestException ReqJSONDecodeError = True"
| "is_RequestException ReqOther = True"
| "is_RequestException _ = False"

text \<open>\<open>isinstance(e, (KeyError, IndexError, json.JSONDecodeError))\<close>\<close>

fun is_parse_failure :: "exn_class \<Rightarrow> bool" where
  "is_parse_failure KeyError = True"
| "is_parse_failure IndexError = True"
| "is_parse_failure JSONDecodeError = True"
| "is_parse_failure ReqJSONDecodeError = True"
| "is_parse_failure _ = False"

subsection \<open>String operations\<close>

text \<open>\<open>str.isspace\<close> of one code point: the characters \<open>str.strip()\<close> removes.\<close>

definition isspace :: "nat \<Rightarrow> bool" where
  "isspace c =
     ((9 \<le> c \<and> c \<le> 13) \<or> (28 \<le> c \<and> c \<le> 32) \<or> c = 0x85 \<or> c = 0xA0 \<or> c = 0x1680
      \<or> (0x2000 \<le> c \<and> c \<le> 0x200A) \<or> c = 0x2028 \<or> c = 0x2029 \<or> c = 0x202F
      \<or> c = 0x205F \<or> c = 0x3000)"

definition strip :: "pystr \<Rightarrow> pystr" where
  "strip s = rev (dropWhile isspace (rev (dropWhile isspace s)))"

text \<open>\<open>s.startswith(p)\<close>\<close>

fun startswith :: "pystr \<Rightarrow> pystr \<Rightarrow> bool" where
  "startswith s [] = True"
| "startswith [] (p # ps) = False"
| "startswith (c # cs) (p # ps) = (c = p \<and> startswith cs ps)"

text \<open>\<open>sub in s\<close> for two strings\<close>

fun str_contains :: "pystr \<Rightarrow> pystr \<Rightarrow> bool" where
  "str_contains sub [] = (sub = [])"
| "str_contains sub (c # cs) = (startswith (c # cs) sub \<or> str_contains sub cs)"

text \<open>\<open>s.replace(old, new)\<close> where \<open>old\<close> is one character\<close>

definition replace_char :: "nat \<Rightarrow> pystr \<Rightarrow> pystr \<Rightarrow> pystr" where
  "replace_char old new s = concat (map (\<lambda>c. if c = old then new else [c]) s)"

text \<open>The decimal digits of a number, as \<open>str(n)\<close> gives them.\<close>

fun dec :: "nat \<Rightarrow> pystr" where
  "dec n = (if n < 10 then [48 + n] else dec (n div 10) @ [48 + n mod 10])"

declare dec.simps [simp del]

subsection \<open>Operators on values\<close>

text \<open>\<open>type(v).__name__\<close>, as the messages of \<open>TypeError\<close> and \<open>AttributeError\<close> print it.\<close>

fun type_name :: "pyval \<Rightarrow> pystr" where
  "type_name PyNone = lit ''NoneType''"
| "type_name (PyBool b) = lit ''bool''"
| "type_name (PyInt i) = lit ''int''"
| "type_name (PyFloat x) = lit ''float''"
| "type_name (PyStr t) = lit ''str''"
| "type_name (PyList xs) = lit ''list''"
| "type_name (PyDict kvs) = lit ''dict''"

definition not_subscriptable :: "pyval \<Rightarrow> exn" where
  "not_subscriptable v = Exn TypeError ([39] @ type_name v @ [39] @ lit '' object is not subscriptable'')"

definition no_attribute :: "pyval \<Rightarrow> pystr \<Rightarrow> exn" where
  "no_attribute v a =
     Exn AttributeError ([39] @ type_name v @ [39] @ lit '' object has no attribute '' @ [39] @ a @ [39])"

text \<open>
  \<open>s in v\<close> for a string \<open>s\<close>: a key test on a dict, an element test on a list, a
  substring test on a string; every other value is not iterable.
\<close>

fun py_in :: "pystr \<Rightarrow> pyval \<Rightarrow> exn + bool" where
  "py_in s (PyDict kvs) = Inr (s \<in> set (map fst kvs))"
| "py_in s (PyList xs) = Inr (PyStr s \<in> set xs)"
| "py_in s (PyStr t) = Inr (str_contains s t)"
| "py_in s v = Inl (Exn TypeError (lit ''argument of type '' @ [39] @ type_name v @ [39] @ lit '' is not iterable''))"

text \<open>
  \<open>v[k]\<close> for a string key \<open>k\<close>. \<open>str(KeyError(k))\<close> is \<open>repr(k)\<close>: the key in single
  quotes (the keys used here hold no quote or backslash).
\<close>

fun getitem :: "pyval \<Rightarrow> pystr \<Rightarrow> exn + pyval" where
  "getitem (PyDict kvs) k =
     (case map_of kvs k of
        None \<Rightarrow> Inl (Exn KeyError ([39] @ k @ [39]))
      | Some v \<Rightarrow> Inr v)"
| "getitem (PyList xs) k = Inl (Exn TypeError (lit ''list indices must be integers or slices, not str''))"
| "getitem (PyStr t) k = Inl (Exn TypeError (lit ''string indices must be integers, not '' @ [39] @ lit ''str'' @ [39]))"
| "getitem v k = Inl (not_subscriptable v)"

text \<open>
  \<open>v[0]\<close>. The keys of a dict that \<open>json.loads\<close> built are strings, so \<open>0\<close> is never
  one of them.
\<close>

fun getitem0 :: "pyval \<Rightarrow> exn + pyval" where
  "getitem0 (PyList []) = Inl (Exn IndexError (lit ''list index out of range''))"
| "getitem0 (PyList (x # xs)) = Inr x"
| "getitem0 (PyStr []) = Inl (Exn IndexError (lit ''string index out of range''))"
| "getitem0 (PyStr (c # cs)) = Inr (PyStr [c])"
| "getitem0 (PyDict kvs) = Inl (Exn KeyError (lit ''0''))"
| "getitem0 v = Inl (not_subscriptable v)"

text \<open>\<open>len(v)\<close> (a dict is an association list with distinct keys)\<close>

fun py_len :: "pyval \<Rightarrow> exn + nat" where
  "py_len (PyList xs) = Inr (length xs)"
| "py_len (PyStr t) = Inr (length t)"
| "py_len (PyDict kvs) = Inr (length kvs)"
| "py_len v = Inl (Exn TypeError (lit ''object of type '' @ [39] @ type_name v @ [39] @ lit '' has no len()''))"

section \<open>The HTTP library, as far as the script uses it\<close>

record message =
  role :: pystr
  content :: pyval

record chat_data =
  model :: pystr
  data_messages :: "message list"
  temperature :: real
  max_tokens :: nat
  stream :: bool

record request =
  req_url :: pystr
  req_headers :: "(pystr \<times> pystr) list"
  req_json :: chat_data
  req_timeout :: nat

text \<open>
  A response object: its status line, its final URL, and what \<open>response.json()\<close> does
  on its body (returns a value, or raises).
\<close>

record response =
  status_code :: int
  reason :: pystr
  resp_url :: pystr
  json_result :: "exn + pyval"

text \<open>\<open>requests.post\<close> either raises or returns a response.\<close>

datatype post_outcome = PostRaises exn | PostReturns response

text \<open>
  \<open>Response.raise_for_status\<close> of the requests library: it raises \<open>HTTPError\<close> for a
  status from 400 to 599 and returns for every other status.
\<close>

definition raise_for_status :: "response \<Rightarrow> exn option" where
  "raise_for_status r =
     (if 400 \<le> status_code r \<and> status_code r < 500 then
        Some (Exn ReqHTTPError
          (dec (nat (status_code r)) @ lit '' Client Error: '' @ reason r
             @ lit '' for url: '' @ resp_url r))
      else if 500 \<le> status_code r \<and> status_code r < 600 then
        Some (Exn ReqHTTPError
          (dec (nat (status_code r)) @ lit '' Server Error: '' @ reason r
             @ lit '' for url: '' @ resp_url r))
      else None)"

section \<open>\<open>get_deepseek_response\<close>\<close>

definition empty_key_message :: pystr where
  "empty_key_message =
     [0x274C] @ lit '' Error: API key is empty. Please enter a valid DeepSeek API key in the sidebar.''"

definition authentication_message :: pystr where
  "authentication_message =
     [0x274C] @ lit '' Authentication Error: Invalid API key. Please check your DeepSeek API key and make sure it's correct.''"

definition rate_limit_message :: pystr where
  "rate_limit_message =
     [0x26A0, 0xFE0F] @ lit '' Rate Limit: Too many requests. Please wait a moment and try again.''"

definition server_error_message :: pystr where
  "server_error_message =
     [0x274C] @ lit '' Server Error: DeepSeek API is experiencing issues. Please try again later.''"

definition format_message :: pystr where
  "format_message = [0x274C] @ lit '' Error: Unexpected response format from API.''"

definition timeout_message :: pystr where
  "timeout_message =
     [0x23F1, 0xFE0F] @ lit '' Timeout Error: Request took too long. Please try again.''"

definition connection_message :: pystr where
  "connection_message =
     [0x1F310] @ lit '' Connection Error: Unable to connect to DeepSeek API. Check your internet connection.''"

definition request_error_message :: "pystr \<Rightarrow> pystr" where
  "request_error_message e = [0x274C] @ lit '' Request Error: '' @ e"

definition parse_error_message :: "pystr \<Rightarrow> pystr" where
  "parse_error_message e = [0x274C] @ lit '' Parse Error: Unable to parse API response - '' @ e"

definition url :: pystr where
  "url = lit ''https://api.deepseek.com/chat/completions''"

definition headers :: "pystr \<Rightarrow> (pystr \<times> pystr) list" where
  "headers api_key =
     [(lit ''Content-Type'', lit ''application/json''),
      (lit ''Authorization'', lit ''Bearer '' @ strip api_key)]"

definition system_message :: message where
  "system_message =
     \<lparr>role = lit ''system'',
      content = PyStr (
        lit ''You are a helpful health advice assistant. Provide general health information, wellness tips, and lifestyle advice. '' @ [10]
        @ [10]
        @ lit ''IMPORTANT DISCLAIMERS:'' @ [10]
        @ lit ''- You are NOT a replacement for professional medical advice'' @ [10]
        @ lit ''- Always remind users to consult healthcare professionals for diagnosis and treatment'' @ [10]
        @ lit ''- Do not provide specific diagnoses or prescribe medications'' @ [10]
        @ lit ''- Focus on general wellness, preventive care, and healthy lifestyle tips'' @ [10]
        @ lit ''- If someone describes serious symptoms, urge them to seek immediate medical attention'' @ [10]
        @ [10]
        @ lit ''Be empathetic, informative, and always prioritize user safety. Keep responses concise and clear.'')\<rparr>"

definition data :: "message list \<Rightarrow> chat_data" where
  "data messages =
     \<lparr>model = lit ''deepseek-chat'',
      data_messages = [system_message] @ messages,
      temperature = 7 / 10,
      max_tokens = 1000,
      stream = False\<rparr>"

definition build_request :: "message list \<Rightarrow> pystr \<Rightarrow> request" where
  "build_request messages api_key =
     \<lparr>req_url = url, req_headers = headers api_key, req_json = data messages, req_timeout = 60\<rparr>"

text \<open>
  The lines after \<open>response.json()\<close>: the test
  \<open>'choices' in result and len(result['choices']) > 0\<close> (the right operand is
  evaluated only when the left one holds) and the two returns.
\<close>

definition extract_content :: "pyval \<Rightarrow> exn + pyval" where
  "extract_content result =
     (case py_in (lit ''choices'') result of
        Inl e \<Rightarrow> Inl e
      | Inr False \<Rightarrow> Inr (PyStr format_message)
      | Inr True \<Rightarrow>
          (case getitem result (lit ''choices'') of
             Inl e \<Rightarrow> Inl e
           | Inr choices \<Rightarrow>
               (case py_len choices of
                  Inl e \<Rightarrow> Inl e
                | Inr n \<Rightarrow>
                    if n > 0 then
                      (case getitem0 choices of
                         Inl e \<Rightarrow> Inl e
                       | Inr choice \<Rightarrow>
                           (case getitem choice (lit ''message'') of
                              Inl e \<Rightarrow> Inl e
                            | Inr m \<Rightarrow> getitem m (lit ''content'')))
                    else Inr (PyStr format_message))))"

text \<open>The body of the \<open>try\<close> block, given what \<open>requests.post\<close> did.\<close>

definition try_body :: "post_outcome \<Rightarrow> exn + pyval" where
  "try_body outcome =
     (case outcome of
        PostRaises e \<Rightarrow> Inl e
      | PostReturns r \<Rightarrow>
          if status_code r = 401 then Inr (PyStr authentication_message)
          else if status_code r = 429 then Inr (PyStr rate_limit_message)
          else if status_code r = 500 then Inr (PyStr server_error_message)
          else
            (case raise_for_status r of
               Some e \<Rightarrow> Inl e
             | None \<Rightarrow>
                 (case json_result r of
                    Inl e \<Rightarrow> Inl e
                  | Inr result \<Rightarrow> extract_content result)))"

text \<open>
  The \<open>except\<close> clauses, tried in the order of the source; an exception that none of
  them matches leaves the function.
\<close>

fun except_clauses :: "exn \<Rightarrow> exn + pyval" where
  "except_clauses (Exn c m) =
     (if is_Timeout c then Inr (PyStr timeout_message)
      else if is_ConnectionError c then Inr (PyStr connection_message)
      else if is_RequestException c then Inr (PyStr (request_error_message m))
      else if is_parse_failure c then Inr (PyStr (parse_error_message m))
      else Inl (Exn c m))"

text \<open>
  The function itself. The network is a parameter: \<open>net\<close> says what \<open>requests.post\<close>
  does with a request. The result is what the function returns (\<open>Inr\<close>) or the
  exception it lets through (\<open>Inl\<close>), together with the list of requests it sent.
\<close>

definition get_deepseek_response ::
    "(request \<Rightarrow> post_outcome) \<Rightarrow> message list \<Rightarrow> pystr \<Rightarrow> (exn + pyval) \<times> request list" where
  "get_deepseek_response net messages api_key =
     (if api_key = [] \<or> strip api_key = [] then (Inr (PyStr empty_key_message), [])
      else
        let rq = build_request messages api_key in
        ((case try_body (net rq) of
            Inl e \<Rightarrow> except_clauses e
          | Inr v \<Rightarrow> Inr v),
         [rq]))"

section \<open>\<open>text_to_speech\<close>\<close>

text \<open>\<open>text.replace('"', '\\"').replace('\n', ' ')\<close>\<close>

definition clean_text :: "pystr \<Rightarrow> pystr" where
  "clean_text text = replace_char 10 [32] (replace_char 34 [92, 34] text)"

definition text_to_speech :: "pystr \<Rightarrow> pystr" where
  "text_to_speech text =
     [10] @ lit ''    <script>'' @ [10]
     @ lit ''    function speak() {'' @ [10]
     @ lit ''        const text = `'' @ clean_text text @ lit ''`;'' @ [10]
     @ lit ''        const utterance = new SpeechSynthesisUtterance(text);'' @ [10]
     @ lit ''        utterance.rate = 0.9;'' @ [10]
     @ lit ''        utterance.pitch = 1;'' @ [10]
     @ lit ''        utterance.volume = 1;'' @ [10]
     @ lit ''        window.speechSynthesis.speak(utterance);'' @ [10]
     @ lit ''    }'' @ [10]
     @ lit ''    speak();'' @ [10]
     @ lit ''    </script>'' @ [10]
     @ lit ''    ''"

section \<open>The script: session state and one run per user action\<close>

text \<open>
  \<open>st.session_state\<close> (the first three fields) and a log of what the script has done
  to the outside: the payloads handed to \<open>st.components.v1.html\<close> (the speech
  dispatches), the requests posted, and the status boxes shown.
\<close>

datatype notice = StError pyval | StSuccess pystr | StWarning pystr | StInfo pystr

record app =
  messages :: "message list"
  api_key :: pystr
  voice_enabled :: bool
  spoken :: "pystr list"
  sent :: "request list"
  shown :: "notice list"

text \<open>The state after the initialisation of lines 59 to 66, in a fresh session.\<close>

definition initial :: app where
  "initial = \<lparr>messages = [], api_key = [], voice_enabled = False, spoken = [], sent = [], shown = []\<rparr>"

text \<open>
  How a block of the script ends: it falls through to the next statement, it calls
  \<open>st.rerun()\<close>, or an exception leaves it.
\<close>

datatype ctl = Continue | Rerun | Raised exn

fun then_block :: "app \<times> ctl \<Rightarrow> (app \<Rightarrow> app \<times> ctl) \<Rightarrow> app \<times> ctl" where
  "then_block (s, Continue) f = f s"
| "then_block (s, c) f = (s, c)"

text \<open>The widget that fired in this run (at most one does).\<close>

datatype trigger =
    NoTrigger
  | ClearChat
  | TestConnection
  | Speak nat
  | ChatInput pystr
  | SleepTips
  | HealthyEating
  | ExerciseGuide
  | StressRelief

definition user_turn :: "pystr \<Rightarrow> message" where
  "user_turn t = \<lparr>role = lit ''user'', content = PyStr t\<rparr>"

definition assistant_turn :: "pyval \<Rightarrow> message" where
  "assistant_turn v = \<lparr>role = lit ''assistant'', content = v\<rparr>"

text \<open>Lines 169 to 173 and 178: the key field and the voice checkbox.\<close>

definition sidebar_settings :: "pystr \<Rightarrow> bool \<Rightarrow> app \<Rightarrow> app \<times> ctl" where
  "sidebar_settings api_key_input checkbox s =
     (let s1 = (if api_key_input \<noteq> [] then
                  s\<lparr>api_key := strip api_key_input,
                    shown := shown s @ [StSuccess ([0x2705] @ lit '' API Key saved'')]\<rparr>
                else
                  s\<lparr>shown := shown s @ [StWarning ([0x26A0, 0xFE0F] @ lit '' Please enter your API key'')]\<rparr>)
      in (s1\<lparr>voice_enabled := checkbox\<rparr>, Continue))"

text \<open>Lines 200 to 202: the Clear Chat History button.\<close>

definition clear_chat_button :: "trigger \<Rightarrow> app \<Rightarrow> app \<times> ctl" where
  "clear_chat_button trig s =
     (if trig = ClearChat then (s\<lparr>messages := []\<rparr>, Rerun) else (s, Continue))"

text \<open>Lines 210 to 220: the Test Connection button.\<close>

definition test_msg :: "message list" where
  "test_msg = [user_turn (lit ''Say 'API connection successful' in 5 words or less'')]"

definition test_connection_button ::
    "(request \<Rightarrow> post_outcome) \<Rightarrow> trigger \<Rightarrow> app \<Rightarrow> app \<times> ctl" where
  "test_connection_button net trig s =
     (if trig = TestConnection then
        if api_key s \<noteq> [] then
          (case get_deepseek_response net test_msg (api_key s) of
             (res, calls) \<Rightarrow>
               let s1 = s\<lparr>sent := sent s @ calls\<rparr> in
               (case res of
                  Inl e \<Rightarrow> (s1, Raised e)
                | Inr response \<Rightarrow>
                    (case py_in [0x274C] response of
                       Inl e \<Rightarrow> (s1, Raised e)
                     | Inr True \<Rightarrow> (s1\<lparr>shown := shown s1 @ [StError response]\<rparr>, Continue)
                     | Inr False \<Rightarrow>
                         (case py_in (lit ''Error'') response of
                            Inl e \<Rightarrow> (s1, Raised e)
                          | Inr True \<Rightarrow> (s1\<lparr>shown := shown s1 @ [StError response]\<rparr>, Continue)
                          | Inr False \<Rightarrow>
                              (s1\<lparr>shown := shown s1
                                     @ [StSuccess ([0x2705] @ lit '' Connection successful!'')]\<rparr>,
                               Continue)))))
        else (s\<lparr>shown := shown s @ [StError (PyStr (lit ''Please enter API key first''))]\<rparr>, Continue)
      else (s, Continue))"

text \<open>
  Lines 238 to 260: every turn whose role is not \<open>user\<close> has a speak button; pressing
  it dispatches that turn's content (\<open>text.replace\<close> exists on strings only).
\<close>

definition speak_buttons :: "trigger \<Rightarrow> app \<Rightarrow> app \<times> ctl" where
  "speak_buttons trig s =
     (case trig of
        Speak idx \<Rightarrow>
          if idx < length (messages s) \<and> role (messages s ! idx) \<noteq> lit ''user'' then
            (case content (messages s ! idx) of
               PyStr t \<Rightarrow> (s\<lparr>spoken := spoken s @ [text_to_speech t]\<rparr>, Continue)
             | v \<Rightarrow> (s, Raised (no_attribute v (lit ''replace''))))
          else (s, Continue)
      | _ \<Rightarrow> (s, Continue))"

text \<open>Lines 266 to 285: a submitted chat input.\<close>

definition chat_submit :: "(request \<Rightarrow> post_outcome) \<Rightarrow> pystr \<Rightarrow> app \<Rightarrow> app \<times> ctl" where
  "chat_submit net user_input s =
     (let s1 = s\<lparr>messages := messages s @ [user_turn user_input]\<rparr> in
      case get_deepseek_response net (messages s1) (api_key s1) of
        (res, calls) \<Rightarrow>
          let s2 = s1\<lparr>sent := sent s1 @ calls\<rparr> in
          (case res of
             Inl e \<Rightarrow> (s2, Raised e)
           | Inr bot_response \<Rightarrow>
               let s3 = s2\<lparr>messages := messages s2 @ [assistant_turn bot_response]\<rparr> in
               if voice_enabled s3 then
                 (case bot_response of
                    PyStr t \<Rightarrow>
                      if \<not> startswith t [0x274C] then
                        (s3\<lparr>spoken := spoken s3 @ [text_to_speech t]\<rparr>, Rerun)
                      else (s3, Rerun)
                  | v \<Rightarrow> (s3, Raised (no_attribute v (lit ''startswith''))))
               else (s3, Rerun)))"

text \<open>Lines 263 to 287: the chat input is there only when a key is stored.\<close>

definition chat_input :: "(request \<Rightarrow> post_outcome) \<Rightarrow> trigger \<Rightarrow> app \<Rightarrow> app \<times> ctl" where
  "chat_input net trig s =
     (if api_key s \<noteq> [] then
        (case trig of
           ChatInput user_input \<Rightarrow>
             if user_input \<noteq> [] then chat_submit net user_input s else (s, Continue)
         | _ \<Rightarrow> (s, Continue))
      else
        (s\<lparr>shown := shown s
              @ [StInfo ([0x1F448] @ lit '' Please enter your DeepSeek API key in the sidebar to start chatting'')]\<rparr>,
         Continue))"

text \<open>Lines 323 to 341: the four quick action buttons.\<close>

definition quick_actions :: "trigger \<Rightarrow> app \<Rightarrow> app \<times> ctl" where
  "quick_actions trig s =
     (case trig of
        SleepTips \<Rightarrow>
          (s\<lparr>messages := messages s @ [user_turn (lit ''Give me tips for better sleep'')]\<rparr>, Rerun)
      | HealthyEating \<Rightarrow>
          (s\<lparr>messages := messages s @ [user_turn (lit ''How to eat healthier?'')]\<rparr>, Rerun)
      | ExerciseGuide \<Rightarrow>
          (s\<lparr>messages := messages s @ [user_turn (lit ''What exercises should beginners do?'')]\<rparr>, Rerun)
      | StressRelief \<Rightarrow>
          (s\<lparr>messages := messages s @ [user_turn (lit ''How to manage stress?'')]\<rparr>, Rerun)
      | _ \<Rightarrow> (s, Continue))"

text \<open>One execution of the script from top to bottom.\<close>

definition script_pass ::
    "(request \<Rightarrow> post_outcome) \<Rightarrow> pystr \<Rightarrow> bool \<Rightarrow> trigger \<Rightarrow> app \<Rightarrow> app \<times> ctl" where
  "script_pass net api_key_input checkbox trig s =
     then_block (then_block (then_block (then_block (then_block
       (sidebar_settings api_key_input checkbox s)
       (clear_chat_button trig))
       (test_connection_button net trig))
       (speak_buttons trig))
       (chat_input net trig))
       (quick_actions trig)"

text \<open>
  One user action: the script runs with the widget that fired; \<open>st.rerun()\<close> stops
  that execution and runs the script once more with the same widget values and no
  widget fired.
\<close>

definition script_run ::
    "(request \<Rightarrow> post_outcome) \<Rightarrow> pystr \<Rightarrow> bool \<Rightarrow> trigger \<Rightarrow> app \<Rightarrow> app \<times> ctl" where
  "script_run net api_key_input checkbox trig s =
     (case script_pass net api_key_input checkbox trig s of
        (s1, Rerun) \<Rightarrow> script_pass net api_key_input checkbox NoTrigger s1
      | (s1, c) \<Rightarrow> (s1, c))"

section \<open>Properties of \<open>strip\<close>\<close>

lemma dropWhile_idem: "dropWhile P (dropWhile P xs) = dropWhile P xs"
  by (induction xs) auto

lemma strip_Nil [simp]: "strip [] = []"
  by (simp add: strip_def)

lemma strip_all_space: "list_all isspace s \<Longrightarrow> strip s = []"
proof -
  assume "list_all isspace s"
  then have "dropWhile isspace s = []"
    by (simp add: list_all_iff)
  then show ?thesis unfolding strip_def by (simp only: rev.simps dropWhile.simps)
qed

lemma dropWhile_trailing_keeps_head:
  assumes "u = [] \<or> \<not> P (hd u)"
  shows "dropWhile P (rev (dropWhile Q (rev u))) = rev (dropWhile Q (rev u))"
proof -
  let ?v = "dropWhile Q (rev u)"
  have "rev u = takeWhile Q (rev u) @ ?v" by simp
  then have u: "u = rev ?v @ rev (takeWhile Q (rev u))"
    by (metis rev_append rev_rev_ident)
  show ?thesis
  proof (cases "?v = []")
    case True
    show ?thesis unfolding True by simp
  next
    case False
    then have "hd u = hd (rev ?v)" using u by (metis hd_append2 rev_is_Nil_conv)
    moreover have "u \<noteq> []" using False by auto
    ultimately have "\<not> P (hd (rev ?v))" using assms by auto
    then show ?thesis by (simp add: dropWhile_eq_self_iff)
  qed
qed

lemma strip_idem: "strip (strip s) = strip s"
proof -
  let ?u = "dropWhile isspace s"
  have h: "?u = [] \<or> \<not> isspace (hd ?u)"
    using hd_dropWhile by blast
  have "dropWhile isspace (rev (dropWhile isspace (rev ?u))) = rev (dropWhile isspace (rev ?u))"
    using h by (rule dropWhile_trailing_keeps_head [where P = isspace and Q = isspace])
  then show ?thesis
    by (simp add: strip_def dropWhile_idem)
qed

section \<open>The completion client\<close>

lemma snd_get_deepseek_response:
  "snd (get_deepseek_response net msgs k) = (if k = [] \<or> strip k = [] then [] else [build_request msgs k])"
  by (simp add: get_deepseek_response_def Let_def)

lemma get_deepseek_response_sends:
  "strip k \<noteq> [] \<Longrightarrow>
   fst (get_deepseek_response net msgs k) =
     (case try_body (net (build_request msgs k)) of Inl e \<Rightarrow> except_clauses e | Inr v \<Rightarrow> Inr v)"
  by (auto simp: get_deepseek_response_def Let_def)

lemma try_body_parses:
  assumes "\<not> (400 \<le> status_code r \<and> status_code r < 600)"
  shows "try_body (PostReturns r) =
           (case json_result r of Inl e \<Rightarrow> Inl e | Inr result \<Rightarrow> extract_content result)"
  using assms by (auto simp: try_body_def raise_for_status_def)

lemma map_of_Some_key: "map_of kvs k = Some v \<Longrightarrow> k \<in> set (map fst kvs)"
  by (metis map_of_eq_None_iff option.distinct(1) set_map)

lemma extract_content_first_choice:
  assumes "map_of kvs (lit ''choices'') = Some (PyList (PyDict ckvs # cs))"
    and "map_of ckvs (lit ''message'') = Some (PyDict mkvs)"
    and "map_of mkvs (lit ''content'') = Some v"
  shows "extract_content (PyDict kvs) = Inr v"
  using assms map_of_Some_key [OF assms(1)] by (simp add: extract_content_def)

lemma extract_content_no_choices:
  assumes "map_of kvs (lit ''choices'') = Some (PyList [])"
  shows "extract_content (PyDict kvs) = Inr (PyStr format_message)"
  using assms map_of_Some_key [OF assms] by (simp add: extract_content_def)

lemma strip_sk: "strip (lit ''sk-test'') \<noteq> []"
  by (simp add: strip_def lit_def isspace_def)

lemma try_body_http_error:
  assumes "400 \<le> status_code r" "status_code r < 600"
    "status_code r \<noteq> 401" "status_code r \<noteq> 429" "status_code r \<noteq> 500"
  shows "try_body (PostReturns r) = Inl (Exn ReqHTTPError
          (dec (nat (status_code r))
             @ (if status_code r < 500 then lit '' Client Error: '' else lit '' Server Error: '')
             @ reason r @ lit '' for url: '' @ resp_url r))"
  using assms by (simp add: try_body_def raise_for_status_def)

lemma extract_content_no_message:
  assumes "map_of kvs (lit ''choices'') = Some (PyList (PyDict ckvs # cs))"
    and "map_of ckvs (lit ''message'') = None"
  shows "extract_content (PyDict kvs) = Inl (Exn KeyError ([39] @ lit ''message'' @ [39]))"
  using assms map_of_Some_key [OF assms(1)] by (simp add: extract_content_def)

lemma extract_content_no_content:
  assumes "map_of kvs (lit ''choices'') = Some (PyList (PyDict ckvs # cs))"
    and "map_of ckvs (lit ''message'') = Some (PyDict mkvs)"
    and "map_of mkvs (lit ''content'') = None"
  shows "extract_content (PyDict kvs) = Inl (Exn KeyError ([39] @ lit ''content'' @ [39]))"
  using assms map_of_Some_key [OF assms(1)] by (simp add: extract_content_def)

text \<open>
  The body that \<open>response.json()\<close> cannot decode: requests 2.27 and later raise
  \<open>requests.exceptions.JSONDecodeError\<close>, which is a \<open>RequestException\<close>, and the clause
  for \<open>RequestException\<close> stands before the clause that names \<open>json.JSONDecodeError\<close>,
  so the reply is the request-error message.
\<close>

lemma undecodable_body_gives_request_error:
  assumes "strip k \<noteq> []" and "net (build_request msgs k) = PostReturns r"
    and "\<not> (400 \<le> status_code r \<and> status_code r < 600)"
    and "json_result r = Inl (Exn ReqJSONDecodeError m)"
  shows "fst (get_deepseek_response net msgs k) = Inr (PyStr (request_error_message m))"
  by (simp add: get_deepseek_response_sends [OF assms(1)] assms(2) try_body_parses [OF assms(3)]
      assms(4))

text \<open>
  C4. When the credential is the empty string or holds only whitespace,
  \<open>get_deepseek_response\<close> returns the message about the empty key, whatever the
  transcript and the network are, and the list of requests it sent is empty: no
  network call is made.
\<close>

theorem empty_credential_returns_without_request:
  "list_all isspace k \<Longrightarrow>
     get_deepseek_response net msgs k = (Inr (PyStr empty_key_message), [])"
  by (simp add: get_deepseek_response_def strip_all_space)

theorem empty_credential_returns_without_request_witness:
  "list_all isspace [32, 9, 10, 0x3000] \<and>
   get_deepseek_response (\<lambda>rq. PostRaises (Exn OtherError [])) [] [32, 9, 10, 0x3000]
     = (Inr (PyStr empty_key_message), [])"
  using empty_credential_returns_without_request
    [of "[32, 9, 10, 0x3000]" "\<lambda>rq. PostRaises (Exn OtherError [])" "[]"]
  by (simp add: isspace_def)

text \<open>
  C10. Whitespace around the credential changes nothing: for every network, transcript
  and credential \<open>k\<close>, the call with \<open>k\<close> and the call with \<open>k.strip()\<close> return the
  same result and send the same requests. Both the emptiness test and the
  \<open>Authorization\<close> header use the stripped key.
\<close>

theorem credential_whitespace_insensitive:
  "get_deepseek_response net msgs k = get_deepseek_response net msgs (strip k)"
proof -
  have "(k = [] \<or> strip k = []) = (strip k = [] \<or> strip (strip k) = [])"
    by (auto simp: strip_idem)
  moreover have "build_request msgs k = build_request msgs (strip k)"
    by (simp add: build_request_def headers_def strip_idem)
  ultimately show ?thesis
    unfolding get_deepseek_response_def by simp
qed

text \<open>
  C5. On a response with a status from 200 to 299 whose body is a JSON object with a
  \<open>choices\<close> array: when the array is empty the function returns the message about the
  unexpected format (it returns, it does not raise); when its first element is an object
  with a \<open>message\<close> object that has a \<open>content\<close>, the function returns exactly that
  content. The witness is the payload
  \<open>{"choices":[{"message":{"content":"Drink water."}}]}\<close>, which gives \<open>Drink water.\<close>
\<close>

theorem first_choice_content_returned:
  assumes "strip k \<noteq> []"
    and "net (build_request msgs k) = PostReturns r"
    and "200 \<le> status_code r" and "status_code r < 300"
    and "json_result r = Inr (PyDict kvs)"
    and "map_of kvs (lit ''choices'') = Some (PyList choices)"
  shows "(choices = [] \<longrightarrow>
            fst (get_deepseek_response net msgs k) = Inr (PyStr format_message))
       \<and> (\<forall>ckvs cs mkvs v.
            choices = PyDict ckvs # cs
            \<and> map_of ckvs (lit ''message'') = Some (PyDict mkvs)
            \<and> map_of mkvs (lit ''content'') = Some v
            \<longrightarrow> fst (get_deepseek_response net msgs k) = Inr v)"
proof -
  have st: "\<not> (400 \<le> status_code r \<and> status_code r < 600)"
    using assms(4) by simp
  have g: "fst (get_deepseek_response net msgs k) =
      (case extract_content (PyDict kvs) of Inl e \<Rightarrow> except_clauses e | Inr v \<Rightarrow> Inr v)"
    by (simp add: get_deepseek_response_sends [OF assms(1)] assms(2) try_body_parses [OF st] assms(5))
  show ?thesis
    using assms(6) by (auto simp: g extract_content_first_choice extract_content_no_choices)
qed

theorem first_choice_content_returned_witness:
  "fst (get_deepseek_response
      (\<lambda>rq. PostReturns \<lparr>status_code = 200, reason = lit ''OK'', resp_url = url,
        json_result = Inr (PyDict [(lit ''choices'',
          PyList [PyDict [(lit ''message'', PyDict [(lit ''content'', PyStr (lit ''Drink water.''))])]])])\<rparr>)
      [user_turn (lit ''hi'')] (lit ''sk-test'')) = Inr (PyStr (lit ''Drink water.''))
   \<and> fst (get_deepseek_response
      (\<lambda>rq. PostReturns \<lparr>status_code = 200, reason = lit ''OK'', resp_url = url,
        json_result = Inr (PyDict [(lit ''choices'', PyList [])])\<rparr>)
      [user_turn (lit ''hi'')] (lit ''sk-test'')) = Inr (PyStr format_message)"
  using first_choice_content_returned [of "lit ''sk-test''"
      "\<lambda>rq. PostReturns \<lparr>status_code = 200, reason = lit ''OK'', resp_url = url,
        json_result = Inr (PyDict [(lit ''choices'',
          PyList [PyDict [(lit ''message'', PyDict [(lit ''content'', PyStr (lit ''Drink water.''))])]])])\<rparr>"
      "[user_turn (lit ''hi'')]"
      "\<lparr>status_code = 200, reason = lit ''OK'', resp_url = url,
        json_result = Inr (PyDict [(lit ''choices'',
          PyList [PyDict [(lit ''message'', PyDict [(lit ''content'', PyStr (lit ''Drink water.''))])]])])\<rparr>"
      "[(lit ''choices'',
          PyList [PyDict [(lit ''message'', PyDict [(lit ''content'', PyStr (lit ''Drink water.''))])]])]"
      "[PyDict [(lit ''message'', PyDict [(lit ''content'', PyStr (lit ''Drink water.''))])]]"]
    first_choice_content_returned [of "lit ''sk-test''"
      "\<lambda>rq. PostReturns \<lparr>status_code = 200, reason = lit ''OK'', resp_url = url,
        json_result = Inr (PyDict [(lit ''choices'', PyList [])])\<rparr>"
      "[user_turn (lit ''hi'')]"
      "\<lparr>status_code = 200, reason = lit ''OK'', resp_url = url,
        json_result = Inr (PyDict [(lit ''choices'', PyList [])])\<rparr>"
      "[(lit ''choices'', PyList [])]"
      "[]"]
    strip_sk
  by simp

text \<open>
  C3, as the code has it. An exception of \<open>requests.post\<close> is classified first: a
  \<open>Timeout\<close> (a connect timeout too) gives the timeout message, any other
  \<open>ConnectionError\<close> the connectivity message. On a response, 401, 429 and 500 give the
  authentication, rate-limit and server-error messages before the body is looked at (so
  also when the body cannot be parsed); every other status from 400 to 599 gives the
  request-error message with the status code, \<open>Client Error\<close> or \<open>Server Error\<close>, the
  reason and the URL. For every other status the body is parsed: a first choice
  without the key \<open>message\<close>, or whose message has no key \<open>content\<close>, gives the
  parse-error message with the text of the \<open>KeyError\<close>.
\<close>

theorem outcome_classification:
  assumes "strip k \<noteq> []" and "net (build_request msgs k) = outcome"
  shows
    "(\<forall>c m. outcome = PostRaises (Exn c m) \<and> is_Timeout c \<longrightarrow>
        fst (get_deepseek_response net msgs k) = Inr (PyStr timeout_message))
   \<and> (\<forall>c m. outcome = PostRaises (Exn c m) \<and> is_ConnectionError c \<and> \<not> is_Timeout c \<longrightarrow>
        fst (get_deepseek_response net msgs k) = Inr (PyStr connection_message))
   \<and> (\<forall>r. outcome = PostReturns r \<and> status_code r = 401 \<longrightarrow>
        fst (get_deepseek_response net msgs k) = Inr (PyStr authentication_message))
   \<and> (\<forall>r. outcome = PostReturns r \<and> status_code r = 429 \<longrightarrow>
        fst (get_deepseek_response net msgs k) = Inr (PyStr rate_limit_message))
   \<and> (\<forall>r. outcome = PostReturns r \<and> status_code r = 500 \<longrightarrow>
        fst (get_deepseek_response net msgs k) = Inr (PyStr server_error_message))
   \<and> (\<forall>r. outcome = PostReturns r \<and> 400 \<le> status_code r \<and> status_code r < 600
          \<and> status_code r \<noteq> 401 \<and> status_code r \<noteq> 429 \<and> status_code r \<noteq> 500 \<longrightarrow>
        fst (get_deepseek_response net msgs k) =
          Inr (PyStr (request_error_message
            (dec (nat (status_code r))
               @ (if status_code r < 500 then lit '' Client Error: '' else lit '' Server Error: '')
               @ reason r @ lit '' for url: '' @ resp_url r))))
   \<and> (\<forall>r kvs ckvs cs. outcome = PostReturns r \<and> \<not> (400 \<le> status_code r \<and> status_code r < 600)
          \<and> json_result r = Inr (PyDict kvs)
          \<and> map_of kvs (lit ''choices'') = Some (PyList (PyDict ckvs # cs))
          \<and> map_of ckvs (lit ''message'') = None \<longrightarrow>
        fst (get_deepseek_response net msgs k) =
          Inr (PyStr (parse_error_message ([39] @ lit ''message'' @ [39]))))
   \<and> (\<forall>r kvs ckvs cs mkvs. outcome = PostReturns r
          \<and> \<not> (400 \<le> status_code r \<and> status_code r < 600)
          \<and> json_result r = Inr (PyDict kvs)
          \<and> map_of kvs (lit ''choices'') = Some (PyList (PyDict ckvs # cs))
          \<and> map_of ckvs (lit ''message'') = Some (PyDict mkvs)
          \<and> map_of mkvs (lit ''content'') = None \<longrightarrow>
        fst (get_deepseek_response net msgs k) =
          Inr (PyStr (parse_error_message ([39] @ lit ''content'' @ [39]))))"
proof -
  have g: "fst (get_deepseek_response net msgs k) =
      (case try_body outcome of Inl e \<Rightarrow> except_clauses e | Inr v \<Rightarrow> Inr v)"
    by (simp add: get_deepseek_response_sends [OF assms(1)] assms(2))
  have t: "\<And>c m. outcome = PostRaises (Exn c m) \<Longrightarrow> is_Timeout c \<Longrightarrow>
      fst (get_deepseek_response net msgs k) = Inr (PyStr timeout_message)"
    by (simp add: g try_body_def)
  have c: "\<And>c m. outcome = PostRaises (Exn c m) \<Longrightarrow> is_ConnectionError c \<Longrightarrow> \<not> is_Timeout c \<Longrightarrow>
      fst (get_deepseek_response net msgs k) = Inr (PyStr connection_message)"
    by (simp add: g try_body_def)
  have s: "\<And>r. outcome = PostReturns r \<Longrightarrow> status_code r = 401 \<Longrightarrow>
      fst (get_deepseek_response net msgs k) = Inr (PyStr authentication_message)"
    "\<And>r. outcome = PostReturns r \<Longrightarrow> status_code r = 429 \<Longrightarrow>
      fst (get_deepseek_response net msgs k) = Inr (PyStr rate_limit_message)"
    "\<And>r. outcome = PostReturns r \<Longrightarrow> status_code r = 500 \<Longrightarrow>
      fst (get_deepseek_response net msgs k) = Inr (PyStr server_error_message)"
    by (simp_all add: g try_body_def)
  have h: "\<And>r. outcome = PostReturns r \<Longrightarrow> 400 \<le> status_code r \<Longrightarrow> status_code r < 600 \<Longrightarrow>
      status_code r \<noteq> 401 \<Longrightarrow> status_code r \<noteq> 429 \<Longrightarrow> status_code r \<noteq> 500 \<Longrightarrow>
      fst (get_deepseek_response net msgs k) =
          Inr (PyStr (request_error_message
            (dec (nat (status_code r))
               @ (if status_code r < 500 then lit '' Client Error: '' else lit '' Server Error: '')
               @ reason r @ lit '' for url: '' @ resp_url r)))"
    by (simp add: g try_body_http_error)
  have m: "\<And>r kvs ckvs cs. outcome = PostReturns r \<Longrightarrow>
      \<not> (400 \<le> status_code r \<and> status_code r < 600) \<Longrightarrow>
      json_result r = Inr (PyDict kvs) \<Longrightarrow>
      map_of kvs (lit ''choices'') = Some (PyList (PyDict ckvs # cs)) \<Longrightarrow>
      map_of ckvs (lit ''message'') = None \<Longrightarrow>
      fst (get_deepseek_response net msgs k) =
          Inr (PyStr (parse_error_message ([39] @ lit ''message'' @ [39])))"
    by (simp add: g try_body_parses extract_content_no_message)
  have n: "\<And>r kvs ckvs cs mkvs. outcome = PostReturns r \<Longrightarrow>
      \<not> (400 \<le> status_code r \<and> status_code r < 600) \<Longrightarrow>
      json_result r = Inr (PyDict kvs) \<Longrightarrow>
      map_of kvs (lit ''choices'') = Some (PyList (PyDict ckvs # cs)) \<Longrightarrow>
      map_of ckvs (lit ''message'') = Some (PyDict mkvs) \<Longrightarrow>
      map_of mkvs (lit ''content'') = None \<Longrightarrow>
      fst (get_deepseek_response net msgs k) =
          Inr (PyStr (parse_error_message ([39] @ lit ''content'' @ [39])))"
    by (simp add: g try_body_parses extract_content_no_content)
  show ?thesis
    using t c s h m n by blast
qed

theorem outcome_classification_witness:
  "fst (get_deepseek_response (\<lambda>rq. PostRaises (Exn ReqConnectTimeout (lit ''timed out'')))
      [user_turn (lit ''hi'')] (lit ''sk-test'')) = Inr (PyStr timeout_message)
   \<and> fst (get_deepseek_response (\<lambda>rq. PostRaises (Exn ReqConnectionError (lit ''refused'')))
      [user_turn (lit ''hi'')] (lit ''sk-test'')) = Inr (PyStr connection_message)
   \<and> fst (get_deepseek_response
      (\<lambda>rq. PostReturns \<lparr>status_code = 401, reason = lit ''Unauthorized'', resp_url = url,
        json_result = Inl (Exn ReqJSONDecodeError (lit ''Expecting value''))\<rparr>)
      [user_turn (lit ''hi'')] (lit ''sk-test'')) = Inr (PyStr authentication_message)
   \<and> fst (get_deepseek_response
      (\<lambda>rq. PostReturns \<lparr>status_code = 429, reason = lit ''Too Many Requests'', resp_url = url,
        json_result = Inr (PyDict [])\<rparr>)
      [user_turn (lit ''hi'')] (lit ''sk-test'')) = Inr (PyStr rate_limit_message)
   \<and> fst (get_deepseek_response
      (\<lambda>rq. PostReturns \<lparr>status_code = 500, reason = lit ''Internal Server Error'', resp_url = url,
        json_result = Inr (PyDict [])\<rparr>)
      [user_turn (lit ''hi'')] (lit ''sk-test'')) = Inr (PyStr server_error_message)
   \<and> fst (get_deepseek_response
      (\<lambda>rq. PostReturns \<lparr>status_code = 404, reason = lit ''Not Found'', resp_url = url,
        json_result = Inr (PyDict [])\<rparr>)
      [user_turn (lit ''hi'')] (lit ''sk-test'')) =
        Inr (PyStr (request_error_message (lit ''404 Client Error: Not Found for url: '' @ url)))
   \<and> fst (get_deepseek_response
      (\<lambda>rq. PostReturns \<lparr>status_code = 200, reason = lit ''OK'', resp_url = url,
        json_result = Inr (PyDict [(lit ''choices'', PyList [PyDict []])])\<rparr>)
      [user_turn (lit ''hi'')] (lit ''sk-test'')) =
        Inr (PyStr (parse_error_message ([39] @ lit ''message'' @ [39])))
   \<and> fst (get_deepseek_response
      (\<lambda>rq. PostReturns \<lparr>status_code = 200, reason = lit ''OK'', resp_url = url,
        json_result = Inr (PyDict [(lit ''choices'',
          PyList [PyDict [(lit ''message'', PyDict [])]])])\<rparr>)
      [user_turn (lit ''hi'')] (lit ''sk-test'')) =
        Inr (PyStr (parse_error_message ([39] @ lit ''content'' @ [39])))"
proof -
  note k = strip_sk
  have d: "dec 404 = lit ''404''"
    by (simp add: dec.simps lit_def)
  have 1: "fst (get_deepseek_response (\<lambda>rq. PostRaises (Exn ReqConnectTimeout (lit ''timed out'')))
      [user_turn (lit ''hi'')] (lit ''sk-test'')) = Inr (PyStr timeout_message)"
    using outcome_classification [OF k, of "\<lambda>rq. PostRaises (Exn ReqConnectTimeout (lit ''timed out''))"
        "[user_turn (lit ''hi'')]" "PostRaises (Exn ReqConnectTimeout (lit ''timed out''))"]
    by simp
  have 2: "fst (get_deepseek_response (\<lambda>rq. PostRaises (Exn ReqConnectionError (lit ''refused'')))
      [user_turn (lit ''hi'')] (lit ''sk-test'')) = Inr (PyStr connection_message)"
    using outcome_classification [OF k, of "\<lambda>rq. PostRaises (Exn ReqConnectionError (lit ''refused''))"
        "[user_turn (lit ''hi'')]" "PostRaises (Exn ReqConnectionError (lit ''refused''))"]
    by simp
  have 3: "fst (get_deepseek_response
      (\<lambda>rq. PostReturns \<lparr>status_code = 401, reason = lit ''Unauthorized'', resp_url = url,
        json_result = Inl (Exn ReqJSONDecodeError (lit ''Expecting value''))\<rparr>)
      [user_turn (lit ''hi'')] (lit ''sk-test'')) = Inr (PyStr authentication_message)"
    using outcome_classification [OF k, of "\<lambda>rq. PostReturns \<lparr>status_code = 401, reason = lit ''Unauthorized'',
        resp_url = url, json_result = Inl (Exn ReqJSONDecodeError (lit ''Expecting value''))\<rparr>"
        "[user_turn (lit ''hi'')]" "PostReturns \<lparr>status_code = 401, reason = lit ''Unauthorized'',
        resp_url = url, json_result = Inl (Exn ReqJSONDecodeError (lit ''Expecting value''))\<rparr>"]
    by simp
  have 4: "fst (get_deepseek_response
      (\<lambda>rq. PostReturns \<lparr>status_code = 429, reason = lit ''Too Many Requests'', resp_url = url,
        json_result = Inr (PyDict [])\<rparr>)
      [user_turn (lit ''hi'')] (lit ''sk-test'')) = Inr (PyStr rate_limit_message)"
    using outcome_classification [OF k, of "\<lambda>rq. PostReturns \<lparr>status_code = 429, reason = lit ''Too Many Requests'',
        resp_url = url, json_result = Inr (PyDict [])\<rparr>"
        "[user_turn (lit ''hi'')]" "PostReturns \<lparr>status_code = 429, reason = lit ''Too Many Requests'',
        resp_url = url, json_result = Inr (PyDict [])\<rparr>"]
    by simp
  have 5: "fst (get_deepseek_response
      (\<lambda>rq. PostReturns \<lparr>status_code = 500, reason = lit ''Internal Server Error'', resp_url = url,
        json_result = Inr (PyDict [])\<rparr>)
      [user_turn (lit ''hi'')] (lit ''sk-test'')) = Inr (PyStr server_error_message)"
    using outcome_classification [OF k, of "\<lambda>rq. PostReturns \<lparr>status_code = 500, reason = lit ''Internal Server Error'',
        resp_url = url, json_result = Inr (PyDict [])\<rparr>"
        "[user_turn (lit ''hi'')]" "PostReturns \<lparr>status_code = 500, reason = lit ''Internal Server Error'',
        resp_url = url, json_result = Inr (PyDict [])\<rparr>"]
    by simp
  have 6: "fst (get_deepseek_response
      (\<lambda>rq. PostReturns \<lparr>status_code = 404, reason = lit ''Not Found'', resp_url = url,
        json_result = Inr (PyDict [])\<rparr>)
      [user_turn (lit ''hi'')] (lit ''sk-test'')) =
        Inr (PyStr (request_error_message (lit ''404 Client Error: Not Found for url: '' @ url)))"
    using outcome_classification [OF k, of "\<lambda>rq. PostReturns \<lparr>status_code = 404, reason = lit ''Not Found'',
        resp_url = url, json_result = Inr (PyDict [])\<rparr>"
        "[user_turn (lit ''hi'')]" "PostReturns \<lparr>status_code = 404, reason = lit ''Not Found'',
        resp_url = url, json_result = Inr (PyDict [])\<rparr>"]
    by (simp add: d) (simp add: lit_def)
  have 8: "fst (get_deepseek_response
      (\<lambda>rq. PostReturns \<lparr>status_code = 200, reason = lit ''OK'', resp_url = url,
        json_result = Inr (PyDict [(lit ''choices'', PyList [PyDict []])])\<rparr>)
      [user_turn (lit ''hi'')] (lit ''sk-test'')) =
        Inr (PyStr (parse_error_message ([39] @ lit ''message'' @ [39])))"
    using outcome_classification [OF k, of "\<lambda>rq. PostReturns \<lparr>status_code = 200, reason = lit ''OK'',
        resp_url = url, json_result = Inr (PyDict [(lit ''choices'', PyList [PyDict []])])\<rparr>"
        "[user_turn (lit ''hi'')]" "PostReturns \<lparr>status_code = 200, reason = lit ''OK'',
        resp_url = url, json_result = Inr (PyDict [(lit ''choices'', PyList [PyDict []])])\<rparr>"]
    by simp
  have 9: "fst (get_deepseek_response
      (\<lambda>rq. PostReturns \<lparr>status_code = 200, reason = lit ''OK'', resp_url = url,
        json_result = Inr (PyDict [(lit ''choices'',
          PyList [PyDict [(lit ''message'', PyDict [])]])])\<rparr>)
      [user_turn (lit ''hi'')] (lit ''sk-test'')) =
        Inr (PyStr (parse_error_message ([39] @ lit ''content'' @ [39])))"
    using outcome_classification [OF k, of "\<lambda>rq. PostReturns \<lparr>status_code = 200, reason = lit ''OK'',
        resp_url = url, json_result = Inr (PyDict [(lit ''choices'',
          PyList [PyDict [(lit ''message'', PyDict [])]])])\<rparr>"
        "[user_turn (lit ''hi'')]" "PostReturns \<lparr>status_code = 200, reason = lit ''OK'',
        resp_url = url, json_result = Inr (PyDict [(lit ''choices'',
          PyList [PyDict [(lit ''message'', PyDict [])]])])\<rparr>"]
    by simp
  show ?thesis
    by (intro conjI) (fact 1 2 3 4 5 6 8 9)+
qed

text \<open>
  The claim C3 as it is written says that every status outside 2xx other than 401, 429
  and 500 gives an HTTP-error message. A response with status 300 is outside 2xx, and
  \<open>raise_for_status\<close> does not raise for it: its body is parsed like that of a 200, and
  the reply text is returned.
\<close>

theorem status_300_is_parsed_as_success:
  "fst (get_deepseek_response
      (\<lambda>rq. PostReturns \<lparr>status_code = 300, reason = lit ''Multiple Choices'', resp_url = url,
        json_result = Inr (PyDict [(lit ''choices'',
          PyList [PyDict [(lit ''message'', PyDict [(lit ''content'', PyStr (lit ''Drink water.''))])]])])\<rparr>)
      [user_turn (lit ''hi'')] (lit ''sk-test'')) = Inr (PyStr (lit ''Drink water.''))"
  by (simp add: get_deepseek_response_sends [OF strip_sk] try_body_def raise_for_status_def
      extract_content_def)

text \<open>
  C6 fails on the code. A 200 response whose body is the JSON value \<open>null\<close>: the test
  \<open>'choices' in result\<close> raises \<open>TypeError\<close>, which no \<open>except\<close> clause catches, so the
  exception leaves \<open>get_deepseek_response\<close>.
\<close>

theorem non_object_body_raises_type_error:
  "fst (get_deepseek_response
      (\<lambda>rq. PostReturns \<lparr>status_code = 200, reason = lit ''OK'', resp_url = url, json_result = Inr PyNone\<rparr>)
      [user_turn (lit ''hi'')] (lit ''sk-test''))
   = Inl (Exn TypeError (lit ''argument of type '' @ [39] @ lit ''NoneType'' @ [39] @ lit '' is not iterable''))"
  by (simp add: get_deepseek_response_sends [OF strip_sk] try_body_def raise_for_status_def extract_content_def)

section \<open>The session controller\<close>

lemma script_pass_NoTrigger_messages:
  "messages (fst (script_pass net inp chk NoTrigger s)) = messages s"
  by (simp add: script_pass_def sidebar_settings_def clear_chat_button_def
      test_connection_button_def speak_buttons_def chat_input_def quick_actions_def Let_def)

lemma test_connection_button_frame:
  "messages (fst (test_connection_button net trig s)) = messages s
   \<and> api_key (fst (test_connection_button net trig s)) = api_key s
   \<and> voice_enabled (fst (test_connection_button net trig s)) = voice_enabled s
   \<and> spoken (fst (test_connection_button net trig s)) = spoken s"
  by (simp add: test_connection_button_def Let_def split: prod.splits sum.splits bool.splits)

lemma test_connection_button_sent:
  "sent (fst (test_connection_button net TestConnection s)) =
     sent s @ (if api_key s = [] \<or> strip (api_key s) = [] then [] else [build_request test_msg (api_key s)])"
proof (cases "api_key s = []")
  case True
  then show ?thesis by (simp add: test_connection_button_def)
next
  case False
  obtain res calls where g: "get_deepseek_response net test_msg (api_key s) = (res, calls)"
    by (cases "get_deepseek_response net test_msg (api_key s)")
  have "calls = (if api_key s = [] \<or> strip (api_key s) = [] then [] else [build_request test_msg (api_key s)])"
    using snd_get_deepseek_response [of net test_msg "api_key s"] g by simp
  then show ?thesis
    using False g by (simp add: test_connection_button_def Let_def split: sum.splits bool.splits)
qed

lemma after_test_connection:
  "messages (fst (then_block (then_block (then_block (s, c) (speak_buttons TestConnection))
       (chat_input net TestConnection)) (quick_actions TestConnection))) = messages s
   \<and> sent (fst (then_block (then_block (then_block (s, c) (speak_buttons TestConnection))
       (chat_input net TestConnection)) (quick_actions TestConnection))) = sent s
   \<and> api_key (fst (then_block (then_block (then_block (s, c) (speak_buttons TestConnection))
       (chat_input net TestConnection)) (quick_actions TestConnection))) = api_key s
   \<and> snd (then_block (then_block (then_block (s, c) (speak_buttons TestConnection))
       (chat_input net TestConnection)) (quick_actions TestConnection)) = c"
  by (cases c) (simp_all add: speak_buttons_def chat_input_def quick_actions_def)

lemma test_connection_button_no_rerun:
  "snd (test_connection_button net trig s) \<noteq> Rerun"
  by (simp add: test_connection_button_def Let_def split: prod.splits sum.splits bool.splits)

lemma chat_submit_appends_pair:
  assumes "fst (get_deepseek_response net (messages s @ [user_turn t]) (api_key s)) = Inr v"
  shows "messages (fst (chat_submit net t s)) = messages s @ [user_turn t, assistant_turn v]"
  using assms by (cases "get_deepseek_response net (messages s @ [user_turn t]) (api_key s)")
    (simp add: chat_submit_def Let_def split: pyval.splits)

lemma chat_submit_raised:
  assumes "fst (get_deepseek_response net (messages s @ [user_turn t]) (api_key s)) = Inl e"
  shows "messages (fst (chat_submit net t s)) = messages s @ [user_turn t]
         \<and> snd (chat_submit net t s) = Raised e"
  using assms by (cases "get_deepseek_response net (messages s @ [user_turn t]) (api_key s)")
    (simp add: chat_submit_def Let_def)

lemma chat_submit_spoken:
  "spoken (fst (chat_submit net t s)) =
     spoken s @
       (case fst (get_deepseek_response net (messages s @ [user_turn t]) (api_key s)) of
          Inr (PyStr r) \<Rightarrow>
            if voice_enabled s \<and> \<not> startswith r [0x274C] then [text_to_speech r] else []
        | _ \<Rightarrow> [])"
  by (cases "get_deepseek_response net (messages s @ [user_turn t]) (api_key s)")
    (simp add: chat_submit_def Let_def split: sum.splits pyval.splits)

lemma voice_off_never_speaks:
  "\<not> voice_enabled s \<Longrightarrow> spoken (fst (chat_submit net t s)) = spoken s"
  by (simp add: chat_submit_spoken split: sum.splits pyval.splits)

lemma plain_reply_spoken_once:
  assumes "voice_enabled s"
    and "fst (get_deepseek_response net (messages s @ [user_turn t]) (api_key s)) = Inr (PyStr r)"
    and "\<not> startswith r [0x274C]"
  shows "spoken (fst (chat_submit net t s)) = spoken s @ [text_to_speech r]"
  using assms by (simp add: chat_submit_spoken)

lemma chat_submit_count:
  assumes "fst (get_deepseek_response net (messages s @ [user_turn t]) (api_key s)) = Inr v"
  shows "length (messages (fst (chat_submit net t s))) = length (messages s) + 2"
  by (simp add: chat_submit_appends_pair [OF assms])

text \<open>
  C9. Whatever the transcript held before (and whatever the other widgets hold), the
  run in which the Clear Chat History button fired ends with an empty transcript:
  its length is 0. The handler replaces the list in one assignment, so the model has
  no state between the full and the empty transcript.
\<close>

theorem clear_chat_empties_transcript:
  "length (messages (fst (script_run net inp chk ClearChat s))) = 0"
  by (simp add: script_run_def script_pass_def sidebar_settings_def clear_chat_button_def
      test_connection_button_def speak_buttons_def chat_input_def quick_actions_def Let_def)

text \<open>
  C8. In the run in which the Test Connection button fired, the transcript at the end is
  the transcript at the start, whatever the state, the widgets and the network are. The
  only request the run can send is the one built from the fixed probe message
  \<open>test_msg\<close> and the stored key; it is sent when that key is not blank.
\<close>

theorem test_connection_leaves_transcript:
  "messages (fst (script_run net inp chk TestConnection s)) = messages s
   \<and> sent (fst (script_run net inp chk TestConnection s)) =
       sent s @ (if api_key (fst (script_run net inp chk TestConnection s)) = []
                    \<or> strip (api_key (fst (script_run net inp chk TestConnection s))) = []
                 then []
                 else [build_request test_msg (api_key (fst (script_run net inp chk TestConnection s)))])"
proof -
  obtain s1 where s1: "sidebar_settings inp chk s = (s1, Continue)"
    by (simp add: sidebar_settings_def Let_def)
  have f1: "messages s1 = messages s" "sent s1 = sent s"
    using s1 by (auto simp: sidebar_settings_def Let_def split: if_splits)
  obtain s2 c2 where s2: "test_connection_button net TestConnection s1 = (s2, c2)"
    by (cases "test_connection_button net TestConnection s1")
  have c2: "c2 \<noteq> Rerun"
    using test_connection_button_no_rerun [of net TestConnection s1] s2 by simp
  have f2: "messages s2 = messages s1" "api_key s2 = api_key s1"
    using test_connection_button_frame [of net TestConnection s1] s2 by simp_all
  have g2: "sent s2 = sent s1 @ (if api_key s1 = [] \<or> strip (api_key s1) = [] then []
        else [build_request test_msg (api_key s1)])"
    using test_connection_button_sent [of net s1] s2 by simp
  let ?p = "then_block (then_block (then_block (s2, c2) (speak_buttons TestConnection))
       (chat_input net TestConnection)) (quick_actions TestConnection)"
  have pass: "script_pass net inp chk TestConnection s = ?p"
    by (simp add: script_pass_def s1 clear_chat_button_def s2)
  have "snd ?p = c2" using after_test_connection [of s2 c2 net] by simp
  then have run: "script_run net inp chk TestConnection s = ?p"
    using c2 by (cases ?p; cases c2) (simp_all add: script_run_def pass)
  show ?thesis
    using after_test_connection [of s2 c2 net] f1 f2 g2 by (simp add: run)
qed

lemma timeout_not_cross: "\<not> startswith timeout_message [0x274C]"
  by (simp add: timeout_message_def)

text \<open>
  C1 fails on the code. In a fresh session, the run in which the Sleep Tips button fired
  ends with a transcript of one user turn and no assistant turn: the quick action
  buttons append the question and rerun without calling \<open>get_deepseek_response\<close>.
\<close>

theorem quick_action_appends_unpaired_user_turn:
  "messages (fst (script_run net inp chk SleepTips initial)) =
     [user_turn (lit ''Give me tips for better sleep'')]"
  by (simp add: script_run_def script_pass_def sidebar_settings_def clear_chat_button_def
      test_connection_button_def speak_buttons_def chat_input_def quick_actions_def Let_def initial_def)

text \<open>
  C2 fails on the code. With the voice checkbox on and a request that times out, the
  reply is the timeout message, a classified error; it does not start with the cross
  mark that line 281 tests, so it is dispatched to the speech synthesis.
\<close>

theorem timeout_reply_is_spoken:
  "spoken (fst (script_run (\<lambda>rq. PostRaises (Exn ReqReadTimeout (lit ''Read timed out.'')))
      (lit ''sk-test'') True (ChatInput (lit ''hi'')) initial)) = [text_to_speech timeout_message]"
proof -
  let ?net = "\<lambda>rq::request. PostRaises (Exn ReqReadTimeout (lit ''Read timed out.''))"
  let ?s = "initial\<lparr>api_key := strip (lit ''sk-test''),
       shown := [StSuccess ([0x2705] @ lit '' API Key saved'')], voice_enabled := True\<rparr>"
  have key: "strip (strip (lit ''sk-test'')) \<noteq> []"
    by (simp add: strip_idem strip_sk)
  have g: "fst (get_deepseek_response ?net [user_turn (lit ''hi'')] (strip (lit ''sk-test'')))
      = Inr (PyStr timeout_message)"
    using key by (simp add: get_deepseek_response_sends try_body_def)
  have sp: "spoken (fst (chat_submit ?net (lit ''hi'') ?s)) = [text_to_speech timeout_message]"
    by (simp add: chat_submit_spoken initial_def g timeout_not_cross)
  have c: "snd (chat_submit ?net (lit ''hi'') ?s) = Rerun"
    using g by (cases "get_deepseek_response ?net [user_turn (lit ''hi'')] (strip (lit ''sk-test''))")
      (simp add: chat_submit_def Let_def initial_def timeout_not_cross)
  have nz: "lit ''sk-test'' \<noteq> []" "lit ''hi'' \<noteq> []" "strip (lit ''sk-test'') \<noteq> []"
    using strip_sk by (simp_all add: lit_def)
  have pass: "script_pass ?net (lit ''sk-test'') True (ChatInput (lit ''hi'')) initial
      = (fst (chat_submit ?net (lit ''hi'') ?s), Rerun)"
    using nz c by (cases "chat_submit ?net (lit ''hi'') ?s")
      (simp add: script_pass_def sidebar_settings_def clear_chat_button_def
        test_connection_button_def speak_buttons_def chat_input_def quick_actions_def Let_def
        initial_def)
  have again: "\<And>s. spoken (fst (script_pass ?net (lit ''sk-test'') True NoTrigger s)) = spoken s"
    by (simp add: script_pass_def sidebar_settings_def clear_chat_button_def
        test_connection_button_def speak_buttons_def chat_input_def quick_actions_def Let_def)
  show ?thesis
    using sp by (simp add: script_run_def pass again)
qed

section \<open>The speech trigger\<close>

text \<open>
  What \<open>clean_text\<close> does: no newline is left, every double quote that is left follows
  a backslash, and a backtick stays as it is.
\<close>

lemma clean_text_no_newline: "10 \<notin> set (clean_text t)"
  by (auto simp: clean_text_def replace_char_def split: if_splits)

lemma clean_text_snoc:
  "clean_text (t @ [c]) =
     clean_text t @ (if c = 34 then [92, 34] else if c = 10 then [32] else [c])"
  by (simp add: clean_text_def replace_char_def)

lemma clean_text_quotes_escaped:
  "i < length (clean_text t) \<Longrightarrow> clean_text t ! i = 34 \<Longrightarrow>
     0 < i \<and> clean_text t ! (i - 1) = 92"
proof (induction t arbitrary: i rule: rev_induct)
  case Nil
  then show ?case by (simp add: clean_text_def replace_char_def)
next
  case (snoc c t)
  show ?case
  proof (cases "i < length (clean_text t)")
    case True
    then have "clean_text t ! i = 34"
      using snoc.prems(2) by (simp add: clean_text_snoc nth_append)
    then have "0 < i \<and> clean_text t ! (i - 1) = 92"
      using snoc.IH True by blast
    moreover have "i - 1 < length (clean_text t)"
      using True by simp
    ultimately show ?thesis
      by (simp add: clean_text_snoc nth_append)
  next
    case False
    then show ?thesis
      using snoc.prems
      by (auto simp: clean_text_snoc nth_append less_Suc_eq split: if_splits)
  qed
qed

lemma clean_text_keeps_backtick: "96 \<in> set t \<Longrightarrow> 96 \<in> set (clean_text t)"
  by (auto simp: clean_text_def replace_char_def)

text \<open>
  C7 fails on the code. The text is put between the backticks of a JavaScript template
  literal, and \<open>clean_text\<close> changes only the double quote and the newline: for the text
  \<open>a`b\<close> the script holds the line \<open>const text = `a`b`;\<close>, where the backtick of the
  text ends the literal.
\<close>

theorem backtick_left_unescaped:
  "text_to_speech (lit ''a`b'') =
     [10] @ lit ''    <script>'' @ [10]
     @ lit ''    function speak() {'' @ [10]
     @ lit ''        const text = `a`b`;'' @ [10]
     @ lit ''        const utterance = new SpeechSynthesisUtterance(text);'' @ [10]
     @ lit ''        utterance.rate = 0.9;'' @ [10]
     @ lit ''        utterance.pitch = 1;'' @ [10]
     @ lit ''        utterance.volume = 1;'' @ [10]
     @ lit ''        window.speechSynthesis.speak(utterance);'' @ [10]
     @ lit ''    }'' @ [10]
     @ lit ''    speak();'' @ [10]
     @ lit ''    </script>'' @ [10]
     @ lit ''    ''"
  by (simp add: text_to_speech_def clean_text_def replace_char_def lit_def)

end
